theory Spec2Isabelle
  imports Complex_Main
begin

section \<open>JavaScript strings\<close>

text \<open>
  A JavaScript string is a sequence of code units. The model uses \<open>string\<close>, so a
  \<open>char\<close> is a code unit below 256 (the Latin-1 range); on that range the length the
  validators count is the number of code units.
\<close>

definition isWhitespace :: "char \<Rightarrow> bool" where
  \<comment> \<open>the class \<open>\s\<close> of a regular expression, below 256: TAB, LF, VT, FF, CR, SP, NBSP\<close>
  "isWhitespace c = ((of_char c :: nat) \<in> {9, 10, 11, 12, 13, 32, 160})"

definition ltrim :: "string \<Rightarrow> string" where
  "ltrim str = dropWhile isWhitespace str"

definition rtrim :: "string \<Rightarrow> string" where
  "rtrim str = rev (dropWhile isWhitespace (rev str))"

definition trim :: "string \<Rightarrow> string" where
  "trim str = rtrim (ltrim str)"

definition lowerChar :: "char \<Rightarrow> char" where
  "lowerChar c =
     (let n = (of_char c :: nat)
      in if (65 \<le> n \<and> n \<le> 90) \<or> (192 \<le> n \<and> n \<le> 222 \<and> n \<noteq> 215)
         then char_of (n + 32) else c)"

definition toLowerCase :: "string \<Rightarrow> string" where
  "toLowerCase str = map lowerChar str"

fun split :: "char \<Rightarrow> string \<Rightarrow> string list" where
  "split sep [] = [[]]"
| "split sep (c # cs) =
     (if c = sep then [] # split sep cs
      else (case split sep cs of
              [] \<Rightarrow> [[c]]
            | p # ps \<Rightarrow> (c # p) # ps))"

fun join :: "char \<Rightarrow> string list \<Rightarrow> string" where
  "join sep [] = []"
| "join sep [p] = p"
| "join sep (p # q # ps) = p @ sep # join sep (q # ps)"

section \<open>The validation chains of express-validator\<close>

text \<open>
  \<open>body(field)\<close> builds a chain of sanitizers and validators. They run in the order
  written, on the current value of the field read as a string. A sanitizer replaces the
  value of the field in \<open>req.body\<close>; a validator that fails records an error entry with the
  message of its \<open>withMessage\<close> and the chain goes on (no \<open>bail\<close> is used).
  A value is a string or, after \<open>normalizeEmail\<close>, possibly \<open>false\<close>.
\<close>

datatype jsvalue = JSString string | JSFalse

fun toString :: "jsvalue \<Rightarrow> string" where
  "toString (JSString s) = s"
| "toString JSFalse = ''false''"

record validation_error =
  err_value :: jsvalue
  err_msg :: string
  err_path :: string
  err_location :: string

datatype step =
    Sanitizer "string \<Rightarrow> jsvalue"
  | Validator "string \<Rightarrow> bool" string

fun run_chain :: "string \<Rightarrow> step list \<Rightarrow> jsvalue \<Rightarrow> jsvalue \<times> validation_error list" where
  "run_chain path [] v = (v, [])"
| "run_chain path (Sanitizer f # steps) v = run_chain path steps (f (toString v))"
| "run_chain path (Validator ok m # steps) v =
     (let (v', errs) = run_chain path steps v
      in (v', (if ok (toString v) then []
               else [\<lparr>err_value = v, err_msg = m, err_path = path, err_location = ''body''\<rparr>])
              @ errs))"

definition trim_sanitizer :: "string \<Rightarrow> jsvalue" where
  "trim_sanitizer s = JSString (trim s)"

definition notEmpty :: "string \<Rightarrow> bool" where
  "notEmpty s = (length s \<noteq> 0)"

definition isLength :: "nat \<Rightarrow> nat \<Rightarrow> string \<Rightarrow> bool" where
  "isLength mn mx s = (length s \<ge> mn \<and> length s \<le> mx)"

section \<open>normalizeEmail with its default options\<close>

text \<open>
  \<open>.normalizeEmail()\<close> is called without options, so every default of the validator
  library applies: the domain is lower-cased; for a GMail address the sub-address after
  \<open>+\<close> and the single dots of the local part are removed and \<open>googlemail.com\<close> becomes
  \<open>gmail.com\<close>; for iCloud, Outlook.com and Yahoo addresses the sub-address is removed;
  the local part is lower-cased. The result is \<open>false\<close> when a provider branch leaves
  an empty local part. The provider tables are data of the library and are a parameter.
\<close>

record provider_domains =
  icloud_domains :: "string list"
  outlookdotcom_domains :: "string list"
  yahoo_domains :: "string list"
  yandex_domains :: "string list"

function dotsReplace :: "string \<Rightarrow> string" where
  \<comment> \<open>\<open>replace(/\.+/g, dotsReplacer)\<close>: a run of one dot is dropped, a longer run is kept\<close>
  "dotsReplace [] = []"
| "dotsReplace (c # cs) =
     (if c = CHR ''.''
      then (let run = takeWhile (\<lambda>d. d = CHR ''.'') cs;
                rest = dropWhile (\<lambda>d. d = CHR ''.'') cs
            in (if run = [] then [] else c # run) @ dotsReplace rest)
      else c # dotsReplace cs)"
  by pat_completeness auto
termination
  by (relation "measure length") (auto simp: less_Suc_eq_le length_dropWhile_le)

definition yahoo_subaddress :: "string \<Rightarrow> string" where
  "yahoo_subaddress user =
     (let components = split CHR ''-'' user
      in if length components > 1 then join CHR ''-'' (butlast components)
         else hd components)"

definition normalizeEmail :: "provider_domains \<Rightarrow> string \<Rightarrow> jsvalue" where
  "normalizeEmail doms email =
     (let raw_parts = split CHR ''@'' email;
          domain = toLowerCase (last raw_parts);
          user = join CHR ''@'' (butlast raw_parts)
      in if domain = ''gmail.com'' \<or> domain = ''googlemail.com'' then
           (let user1 = hd (split CHR ''+'' user);
                user2 = dotsReplace user1
            in if length user2 = 0 then JSFalse
               else JSString (toLowerCase user2 @ CHR ''@'' # ''gmail.com''))
         else if domain \<in> set (icloud_domains doms) then
           (let user1 = hd (split CHR ''+'' user)
            in if length user1 = 0 then JSFalse
               else JSString (toLowerCase user1 @ CHR ''@'' # domain))
         else if domain \<in> set (outlookdotcom_domains doms) then
           (let user1 = hd (split CHR ''+'' user)
            in if length user1 = 0 then JSFalse
               else JSString (toLowerCase user1 @ CHR ''@'' # domain))
         else if domain \<in> set (yahoo_domains doms) then
           (let user1 = yahoo_subaddress user
            in if length user1 = 0 then JSFalse
               else JSString (toLowerCase user1 @ CHR ''@'' # domain))
         else if domain \<in> set (yandex_domains doms) then
           JSString (toLowerCase user @ CHR ''@'' # ''yandex.ru'')
         else JSString (toLowerCase user @ CHR ''@'' # domain))"


section \<open>Responses\<close>

text \<open>
  \<open>res.status(n).json(obj)\<close> sends a status and a JSON body. A property whose value is
  \<open>undefined\<close> is left out of the body by the JSON encoding, and a number that is
  not finite is encoded as \<open>null\<close>.
\<close>

datatype json =
    JNull
  | JBool bool
  | JNum int
  | JStr string
  | JArr "json list"
  | JObj "(string \<times> json) list"

record response =
  status :: nat
  body :: json

fun keys :: "json \<Rightarrow> string list" where
  "keys (JObj kvs) = map fst kvs"
| "keys _ = []"

fun field :: "string \<Rightarrow> json \<Rightarrow> json option" where
  "field k (JObj kvs) = map_of kvs k"
| "field k _ = None"

fun jsvalue_json :: "jsvalue \<Rightarrow> json" where
  "jsvalue_json (JSString s) = JStr s"
| "jsvalue_json JSFalse = JBool False"

definition error_json :: "validation_error \<Rightarrow> json" where
  \<comment> \<open>an entry of \<open>errors.array()\<close>, whose \<open>msg\<close> the form component reads; the field name
      is under \<open>path\<close> (\<open>param\<close> in the library before version 7, which has no \<open>type\<close>)\<close>
  "error_json e =
     JObj [(''type'', JStr ''field''),
           (''value'', jsvalue_json (err_value e)),
           (''msg'', JStr (err_msg e)),
           (''path'', JStr (err_path e)),
           (''location'', JStr (err_location e))]"

record env =
  NODE_ENV :: "string option"
  ADMIN_API_KEY :: "string option"

section \<open>validateContact\<close>

record req_body =
  name :: jsvalue
  email :: jsvalue
  message :: jsvalue

text \<open>
  \<open>isEmail\<close> is the validator library's predicate with its default options; the
  middleware is modelled for every such predicate, which is a parameter.
\<close>

definition name_chain :: "step list" where
  "name_chain =
     [Sanitizer trim_sanitizer,
      Validator notEmpty ''Name is required'',
      Validator (isLength 2 100) ''Name must be between 2 and 100 characters'']"

definition email_chain :: "(string \<Rightarrow> bool) \<Rightarrow> provider_domains \<Rightarrow> step list" where
  "email_chain isEmail doms =
     [Sanitizer trim_sanitizer,
      Validator notEmpty ''Email is required'',
      Validator isEmail ''Please provide a valid email address'',
      Sanitizer (normalizeEmail doms)]"

definition message_chain :: "step list" where
  "message_chain =
     [Sanitizer trim_sanitizer,
      Validator notEmpty ''Message is required'',
      Validator (isLength 10 1000) ''Message must be between 10 and 1000 characters'']"

definition sanitized :: "(string \<Rightarrow> bool) \<Rightarrow> provider_domains \<Rightarrow> req_body \<Rightarrow> req_body" where
  \<comment> \<open>\<open>req.body\<close> after the three chains have run\<close>
  "sanitized isEmail doms b =
     \<lparr>name = fst (run_chain ''name'' name_chain (name b)),
      email = fst (run_chain ''email'' (email_chain isEmail doms) (email b)),
      message = fst (run_chain ''message'' message_chain (message b))\<rparr>"

definition validationResult :: "(string \<Rightarrow> bool) \<Rightarrow> provider_domains \<Rightarrow> req_body \<Rightarrow> validation_error list" where
  "validationResult isEmail doms b =
     snd (run_chain ''name'' name_chain (name b))
     @ snd (run_chain ''email'' (email_chain isEmail doms) (email b))
     @ snd (run_chain ''message'' message_chain (message b))"

definition validateContact :: "(string \<Rightarrow> bool) \<Rightarrow> provider_domains \<Rightarrow> req_body \<Rightarrow> response + req_body" where
  \<comment> \<open>\<open>Inl\<close>: the response sent by the last middleware; \<open>Inr\<close>: \<open>next()\<close> with the sanitized body\<close>
  "validateContact isEmail doms b =
     (let errors = validationResult isEmail doms b
      in if errors \<noteq> []
         then Inl \<lparr>status = 400,
                   body = JObj [(''error'', JStr ''Validation failed''),
                                (''details'', JArr (map error_json errors))]\<rparr>
         else Inr (sanitized isEmail doms b))"

text \<open>The shape test of the form component, \<open>/^[^\s@]+@[^\s@]+\.[^\s@]+$/\<close>.\<close>

definition emailRegex :: "string \<Rightarrow> bool" where
  "emailRegex s =
     (case split CHR ''@'' s of
        [local, domain] \<Rightarrow>
          local \<noteq> [] \<and> \<not> list_ex isWhitespace s \<and> CHR ''.'' \<in> set (butlast (tl domain))
      | _ \<Rightarrow> False)"

section \<open>The contacts table\<close>

text \<open>
  The table as \<open>initializeDatabase\<close> and \<open>init.sql\<close> create it. Timestamps are
  seconds since the epoch; the session time zone is UTC, so the calendar date of a
  timestamp is its quotient by 86400.
\<close>

datatype column_type = SERIAL | VARCHAR nat | TEXT | INET | TIMESTAMPTZ

datatype column_constraint = PRIMARY_KEY | NOT_NULL | UNIQUE | DEFAULT_CURRENT_TIMESTAMP

record column =
  column_name :: string
  column_type :: column_type
  column_constraints :: "column_constraint list"

definition contacts_table :: "column list" where
  "contacts_table =
     [\<lparr>column_name = ''id'', column_type = SERIAL, column_constraints = [PRIMARY_KEY]\<rparr>,
      \<lparr>column_name = ''name'', column_type = VARCHAR 100, column_constraints = [NOT_NULL]\<rparr>,
      \<lparr>column_name = ''email'', column_type = VARCHAR 100, column_constraints = [NOT_NULL]\<rparr>,
      \<lparr>column_name = ''message'', column_type = TEXT, column_constraints = [NOT_NULL]\<rparr>,
      \<lparr>column_name = ''ip_address'', column_type = INET, column_constraints = []\<rparr>,
      \<lparr>column_name = ''user_agent'', column_type = TEXT, column_constraints = []\<rparr>,
      \<lparr>column_name = ''created_at'', column_type = TIMESTAMPTZ,
       column_constraints = [DEFAULT_CURRENT_TIMESTAMP]\<rparr>,
      \<lparr>column_name = ''updated_at'', column_type = TIMESTAMPTZ,
       column_constraints = [DEFAULT_CURRENT_TIMESTAMP]\<rparr>]"

record index =
  index_name :: string
  index_column :: string
  index_unique :: bool

definition contacts_indexes :: "index list" where
  \<comment> \<open>\<open>CREATE INDEX idx_contacts_email ON contacts(email)\<close> and
      \<open>CREATE INDEX idx_contacts_created_at ON contacts(created_at DESC)\<close>\<close>
  "contacts_indexes =
     [\<lparr>index_name = ''idx_contacts_email'', index_column = ''email'', index_unique = False\<rparr>,
      \<lparr>index_name = ''idx_contacts_created_at'', index_column = ''created_at'',
       index_unique = False\<rparr>]"

record contact =
  row_id :: int
  row_name :: string
  row_email :: string
  row_message :: string
  ip_address :: "string option"
  user_agent :: "string option"
  created_at :: int
  updated_at :: int

datatype param = PNull | PInt int | PText string | PTime int

fun nullable :: "string option \<Rightarrow> param" where
  "nullable None = PNull"
| "nullable (Some s) = PText s"

definition cell :: "string \<Rightarrow> contact \<Rightarrow> param" where
  "cell col r =
     (if col = ''id'' then PInt (row_id r)
      else if col = ''name'' then PText (row_name r)
      else if col = ''email'' then PText (row_email r)
      else if col = ''message'' then PText (row_message r)
      else if col = ''ip_address'' then nullable (ip_address r)
      else if col = ''user_agent'' then nullable (user_agent r)
      else if col = ''created_at'' then PTime (created_at r)
      else if col = ''updated_at'' then PTime (updated_at r)
      else PNull)"

definition unique_columns :: "column list \<Rightarrow> index list \<Rightarrow> string list" where
  \<comment> \<open>the columns under a primary key, a unique constraint or a unique index\<close>
  "unique_columns t ixs =
     map column_name
       (filter (\<lambda>c. PRIMARY_KEY \<in> set (column_constraints c) \<or> UNIQUE \<in> set (column_constraints c)) t)
     @ map index_column (filter index_unique ixs)"

definition unique_violation :: "column list \<Rightarrow> index list \<Rightarrow> contact list \<Rightarrow> contact \<Rightarrow> bool" where
  "unique_violation t ixs rows new =
     list_ex (\<lambda>col. cell col new \<noteq> PNull \<and> list_ex (\<lambda>r. cell col r = cell col new) rows)
       (unique_columns t ixs)"

definition varchar_limit :: "column list \<Rightarrow> string \<Rightarrow> nat option" where
  "varchar_limit t col =
     (case find (\<lambda>c. column_name c = col) t of
        Some c \<Rightarrow> (case column_type c of VARCHAR n \<Rightarrow> Some n | _ \<Rightarrow> None)
      | None \<Rightarrow> None)"

definition coerce :: "column list \<Rightarrow> string \<Rightarrow> string \<Rightarrow> string option" where
  \<comment> \<open>a value longer than \<open>VARCHAR(n)\<close> is rejected unless the excess is spaces, which are cut\<close>
  "coerce t col s =
     (case varchar_limit t col of
        None \<Rightarrow> Some s
      | Some n \<Rightarrow> if list_all (\<lambda>c. c = CHR '' '') (drop n s) then Some (take n s) else None)"

record pg_error =
  pg_code :: string
  pg_message :: string

datatype cmp = Eq | Ge | Le

datatype condition = Cond string cmp nat

datatype statement =
    InsertContact
  | SelectContacts "condition list" nat nat
  | CountContacts "condition list"
  | DeleteContact
  | MetricsQuery

record db =
  contacts :: "contact list"
  contacts_id_seq :: int
  issued :: "(statement \<times> param list) list"

fun placeholder :: "condition \<Rightarrow> nat" where
  "placeholder (Cond col op i) = i"

fun required :: "statement \<Rightarrow> nat" where
  \<comment> \<open>the number of parameters a statement takes: its highest placeholder\<close>
  "required InsertContact = 5"
| "required (SelectContacts conds li oi) = fold max (map placeholder conds @ [li, oi]) 0"
| "required (CountContacts conds) = fold max (map placeholder conds) 0"
| "required DeleteContact = 1"
| "required MetricsQuery = 0"

definition param_at :: "param list \<Rightarrow> nat \<Rightarrow> param" where
  "param_at ps i = (if 1 \<le> i \<and> i \<le> length ps then ps ! (i - 1) else PNull)"

fun compare_int :: "cmp \<Rightarrow> int \<Rightarrow> int \<Rightarrow> bool" where
  "compare_int Eq a b = (a = b)"
| "compare_int Ge a b = (a \<ge> b)"
| "compare_int Le a b = (a \<le> b)"

definition compare :: "cmp \<Rightarrow> param \<Rightarrow> param \<Rightarrow> bool" where
  "compare op a b =
     (case (a, b) of
        (PText x, PText y) \<Rightarrow> op = Eq \<and> x = y
      | (PInt x, PInt y) \<Rightarrow> compare_int op x y
      | (PTime x, PTime y) \<Rightarrow> compare_int op x y
      | _ \<Rightarrow> False)"

fun holds :: "param list \<Rightarrow> contact \<Rightarrow> condition \<Rightarrow> bool" where
  "holds ps r (Cond col op i) = compare op (cell col r) (param_at ps i)"

definition matching :: "param list \<Rightarrow> condition list \<Rightarrow> contact list \<Rightarrow> contact list" where
  \<comment> \<open>the rows a \<open>WHERE\<close> clause keeps; no condition keeps every row\<close>
  "matching ps conds rows = filter (\<lambda>r. list_all (holds ps r) conds) rows"

definition order_by_created_at_desc :: "contact list \<Rightarrow> contact list" where
  "order_by_created_at_desc rows = sort_key (\<lambda>r. - created_at r) rows"

definition select_rows :: "param list \<Rightarrow> condition list \<Rightarrow> nat \<Rightarrow> nat \<Rightarrow> contact list \<Rightarrow> contact list" where
  "select_rows ps conds row_limit row_offset rows =
     take row_limit (drop row_offset (order_by_created_at_desc (matching ps conds rows)))"

section \<open>The statements the handlers issue\<close>

definition DATE :: "int \<Rightarrow> int" where
  "DATE ts = ts div 86400"

record metric =
  total_contacts :: nat
  unique_emails :: nat
  date :: int
  daily_count :: nat

definition metrics_rows :: "int \<Rightarrow> contact list \<Rightarrow> metric list" where
  \<comment> \<open>\<open>WHERE created_at >= CURRENT_DATE - INTERVAL '30 days' GROUP BY DATE(created_at)
      ORDER BY date DESC\<close>\<close>
  "metrics_rows now rows =
     (let recent = filter (\<lambda>r. created_at r \<ge> (DATE now - 30) * 86400) rows;
          dates = rev (sort (remdups (map (\<lambda>r. DATE (created_at r)) recent)))
      in map (\<lambda>d. let grp = filter (\<lambda>r. DATE (created_at r) = d) recent
                   in \<lparr>total_contacts = length grp,
                       unique_emails = length (remdups (map row_email grp)),
                       date = d,
                       daily_count = length grp\<rparr>) dates)"

definition summary_json :: "contact \<Rightarrow> json" where
  \<comment> \<open>the columns \<open>id, name, email, created_at\<close>\<close>
  "summary_json r =
     JObj [(''id'', JNum (row_id r)), (''name'', JStr (row_name r)),
           (''email'', JStr (row_email r)), (''created_at'', JNum (created_at r))]"

definition deleted_json :: "contact \<Rightarrow> json" where
  \<comment> \<open>\<open>RETURNING id, email\<close>\<close>
  "deleted_json r = JObj [(''id'', JNum (row_id r)), (''email'', JStr (row_email r))]"

definition metric_json :: "metric \<Rightarrow> json" where
  "metric_json m =
     JObj [(''total_contacts'', JNum (int (total_contacts m))),
           (''unique_emails'', JNum (int (unique_emails m))),
           (''date'', JNum (date m)),
           (''daily_count'', JNum (int (daily_count m)))]"

definition new_row :: "int \<Rightarrow> int \<Rightarrow> string \<Rightarrow> string \<Rightarrow> string \<Rightarrow> param \<Rightarrow> param \<Rightarrow> contact" where
  \<comment> \<open>the row an insert makes of its values, the next id and the defaults of the table\<close>
  "new_row now new_id n e m ip ua =
     \<lparr>row_id = new_id, row_name = n, row_email = e, row_message = m,
      ip_address = (case ip of PText a \<Rightarrow> Some a | _ \<Rightarrow> None),
      user_agent = (case ua of PText a \<Rightarrow> Some a | _ \<Rightarrow> None),
      created_at = now, updated_at = now\<rparr>"

definition insert_contact :: "int \<Rightarrow> db \<Rightarrow> param list \<Rightarrow> (pg_error + json list) \<times> db" where
  \<comment> \<open>\<open>INSERT INTO contacts (name, email, message, ip_address, user_agent) VALUES ($1, $2, $3,
      $4::inet, $5) RETURNING id, name, email, created_at\<close>; the sequence behind \<open>id\<close> moves on
      whether or not the row is stored\<close>
  "insert_contact now d ps =
     (let new_id = contacts_id_seq d;
          d' = d\<lparr>contacts_id_seq := new_id + 1\<rparr>
      in case ps of
           [PText n, PText e, PText m, ip, ua] \<Rightarrow>
             (case (coerce contacts_table ''name'' n, coerce contacts_table ''email'' e) of
                (Some n', Some e') \<Rightarrow>
                  (let new = new_row now new_id n' e' m ip ua
                   in if unique_violation contacts_table contacts_indexes (contacts d) new
                      then (Inl \<lparr>pg_code = ''23505'',
                                 pg_message = ''duplicate key value violates unique constraint''\<rparr>, d')
                      else (Inr [summary_json new], d'\<lparr>contacts := contacts d @ [new]\<rparr>))
              | _ \<Rightarrow> (Inl \<lparr>pg_code = ''22001'',
                           pg_message = ''value too long for type character varying(100)''\<rparr>, d'))
         | _ \<Rightarrow> (Inl \<lparr>pg_code = ''23502'',
                      pg_message = ''null value violates not-null constraint''\<rparr>, d))"

definition pool_query :: "int \<Rightarrow> db \<Rightarrow> statement \<Rightarrow> param list \<Rightarrow> (pg_error + json list) \<times> db" where
  \<comment> \<open>\<open>pool.query(text, params)\<close> at time \<open>now\<close>: the rows of the result, or the error thrown\<close>
  "pool_query now d0 stmt ps =
     (let d = d0\<lparr>issued := issued d0 @ [(stmt, ps)]\<rparr>
      in if length ps \<noteq> required stmt
         then (Inl \<lparr>pg_code = ''08P01'',
                    pg_message = ''bind message supplies the wrong number of parameters''\<rparr>, d)
         else case stmt of
           InsertContact \<Rightarrow> insert_contact now d ps
         | SelectContacts conds li oi \<Rightarrow>
             (case (param_at ps li, param_at ps oi) of
                (PInt row_limit, PInt row_offset) \<Rightarrow>
                  if row_limit < 0
                  then (Inl \<lparr>pg_code = ''2201W'', pg_message = ''LIMIT must not be negative''\<rparr>, d)
                  else if row_offset < 0
                  then (Inl \<lparr>pg_code = ''2201X'', pg_message = ''OFFSET must not be negative''\<rparr>, d)
                  else (Inr (map summary_json
                               (select_rows ps conds (nat row_limit) (nat row_offset) (contacts d))), d)
              | _ \<Rightarrow> (Inl \<lparr>pg_code = ''22P02'', pg_message = ''invalid input syntax''\<rparr>, d))
         | CountContacts conds \<Rightarrow>
             (Inr [JObj [(''count'', JNum (int (length (matching ps conds (contacts d)))))]], d)
         | DeleteContact \<Rightarrow>
             (case ps of
                [PInt i] \<Rightarrow>
                  (Inr (map deleted_json (filter (\<lambda>r. row_id r = i) (contacts d))),
                   d\<lparr>contacts := filter (\<lambda>r. row_id r \<noteq> i) (contacts d)\<rparr>)
              | _ \<Rightarrow> (Inl \<lparr>pg_code = ''22P02'', pg_message = ''invalid input syntax''\<rparr>, d))
         | MetricsQuery \<Rightarrow> (Inr (map metric_json (metrics_rows now (contacts d))), d))"

section \<open>The routes\<close>

definition details :: "env \<Rightarrow> pg_error \<Rightarrow> (string \<times> json) list" where
  \<comment> \<open>\<open>details: process.env.NODE_ENV === 'development' ? error.message : undefined\<close>\<close>
  "details e err =
     (if NODE_ENV e = Some ''development'' then [(''details'', JStr (pg_message err))] else [])"

subsection \<open>POST /api/contacts\<close>

record post_request =
  ip :: string
  userAgent :: "string option"
  post_body :: req_body

definition save_failed :: "env \<Rightarrow> pg_error \<Rightarrow> response" where
  \<comment> \<open>the \<open>catch\<close> block of the route\<close>
  "save_failed e err =
     (if pg_code err = ''23505''
      then \<lparr>status = 409, body = JObj [(''error'', JStr ''Duplicate submission detected'')]\<rparr>
      else \<lparr>status = 500,
            body = JObj ((''error'', JStr ''Failed to save contact'') # details e err)\<rparr>)"

definition insert_params :: "post_request \<Rightarrow> req_body \<Rightarrow> param list" where
  "insert_params req b =
     [PText (toString (name b)), PText (toString (email b)), PText (toString (message b)),
      PText (ip req), nullable (userAgent req)]"

definition post_contacts ::
  "(string \<Rightarrow> bool) \<Rightarrow> provider_domains \<Rightarrow> env \<Rightarrow> int \<Rightarrow> db \<Rightarrow> post_request \<Rightarrow> response \<times> db" where
  "post_contacts isEmail doms e now d req =
     (case validateContact isEmail doms (post_body req) of
        Inl res \<Rightarrow> (res, d)
      | Inr b \<Rightarrow>
          (case pool_query now d InsertContact (insert_params req b) of
             (Inr rows, d') \<Rightarrow>
               (\<lparr>status = 201,
                 body = JObj ([(''success'', JBool True),
                               (''message'', JStr ''Contact saved successfully'')]
                              @ (case rows of [] \<Rightarrow> [] | r # _ \<Rightarrow> [(''data'', r)]))\<rparr>, d')
           | (Inl err, d') \<Rightarrow> (save_failed e err, d')))"

subsection \<open>GET /api/contacts\<close>

text \<open>
  \<open>page\<close> and \<open>limit\<close> are decimal integers when present, so that the arithmetic on
  them and \<open>parseInt\<close> agree; \<open>startDate\<close> and \<open>endDate\<close> are the timestamps the store
  reads from the text given. An absent or empty filter is not applied.
\<close>

record list_query =
  q_page :: "int option"
  q_limit :: "int option"
  q_email :: "string option"
  q_startDate :: "int option"
  q_endDate :: "int option"

fun push :: "string \<Rightarrow> cmp \<Rightarrow> param option \<Rightarrow> condition list \<times> param list \<times> nat
    \<Rightarrow> condition list \<times> param list \<times> nat" where
  \<comment> \<open>one \<open>if (filter) { paramCount++; conditions.push(...); params.push(filter) }\<close>\<close>
  "push col op None st = st"
| "push col op (Some v) (conditions, params, paramCount) =
     (conditions @ [Cond col op (paramCount + 1)], params @ [v], paramCount + 1)"

definition email_filter :: "list_query \<Rightarrow> param option" where
  "email_filter q =
     (case q_email q of None \<Rightarrow> None | Some s \<Rightarrow> if s = [] then None else Some (PText s))"

definition filters :: "list_query \<Rightarrow> condition list \<times> param list \<times> nat" where
  "filters q =
     push ''created_at'' Le (map_option PTime (q_endDate q))
       (push ''created_at'' Ge (map_option PTime (q_startDate q))
          (push ''email'' Eq (email_filter q) ([], [], 0)))"

definition page_of :: "list_query \<Rightarrow> int" where
  "page_of q = (case q_page q of None \<Rightarrow> 1 | Some p \<Rightarrow> p)"

definition limit_of :: "list_query \<Rightarrow> int" where
  "limit_of q = (case q_limit q of None \<Rightarrow> 10 | Some l \<Rightarrow> l)"

definition list_statements :: "list_query \<Rightarrow> (statement \<times> param list) \<times> (statement \<times> param list)" where
  \<comment> \<open>the row query and the count query, each with the parameters it is executed with\<close>
  "list_statements q =
     (let offset = (page_of q - 1) * limit_of q;
          (conditions, params, paramCount) = filters q;
          params' = params @ [PInt (limit_of q), PInt offset]
      in ((SelectContacts conditions (paramCount + 1) (paramCount + 2), params'),
          (CountContacts conditions, take paramCount params')))"

definition row_count :: "json list \<Rightarrow> int option" where
  \<comment> \<open>\<open>countResult.rows[0].count\<close>\<close>
  "row_count rows =
     (case rows of
        [] \<Rightarrow> None
      | r # _ \<Rightarrow> (case field ''count'' r of Some (JNum n) \<Rightarrow> Some n | _ \<Rightarrow> None))"

definition totalPages :: "int \<Rightarrow> int \<Rightarrow> json" where
  \<comment> \<open>\<open>Math.ceil(count / limit)\<close>; a division by zero gives no finite number\<close>
  "totalPages count limit = (if limit = 0 then JNull else JNum (- ((- count) div limit)))"

definition fetch_failed :: "env \<Rightarrow> pg_error \<Rightarrow> response" where
  "fetch_failed e err =
     \<lparr>status = 500, body = JObj ((''error'', JStr ''Failed to fetch contacts'') # details e err)\<rparr>"

definition type_error :: pg_error where
  \<comment> \<open>the \<open>TypeError\<close> of reading a property of \<open>undefined\<close>; it has no code\<close>
  "type_error = \<lparr>pg_code = [], pg_message = ''Cannot read properties of undefined''\<rparr>"

definition get_contacts :: "env \<Rightarrow> int \<Rightarrow> db \<Rightarrow> list_query \<Rightarrow> response \<times> db" where
  "get_contacts e now d q =
     (let ((query, params), (countQuery, countParams)) = list_statements q;
          (result, d1) = pool_query now d query params;
          (countResult, d2) = pool_query now d1 countQuery countParams
      in case result of
           Inl err \<Rightarrow> (fetch_failed e err, d2)
         | Inr rows \<Rightarrow>
             (case countResult of
                Inl err \<Rightarrow> (fetch_failed e err, d2)
              | Inr counted \<Rightarrow>
                  (case row_count counted of
                     None \<Rightarrow> (fetch_failed e type_error, d2)
                   | Some count \<Rightarrow>
                       (\<lparr>status = 200,
                         body = JObj [(''success'', JBool True),
                                      (''data'', JArr rows),
                                      (''pagination'',
                                       JObj [(''page'', JNum (page_of q)),
                                             (''limit'', JNum (limit_of q)),
                                             (''total'', JNum count),
                                             (''totalPages'', totalPages count (limit_of q))])]\<rparr>, d2))))"

subsection \<open>DELETE /api/contacts/:id\<close>

text \<open>The path segment \<open>:id\<close> is an integer of the range of the column.\<close>

record delete_request =
  api_key :: "string option"
  id_param :: int

definition delete_contact :: "env \<Rightarrow> int \<Rightarrow> db \<Rightarrow> delete_request \<Rightarrow> response \<times> db" where
  "delete_contact e now d req =
     (if NODE_ENV e = Some ''production'' \<and> api_key req \<noteq> ADMIN_API_KEY e
      then (\<lparr>status = 401, body = JObj [(''error'', JStr ''Unauthorized'')]\<rparr>, d)
      else case pool_query now d DeleteContact [PInt (id_param req)] of
             (Inl err, d') \<Rightarrow>
               (\<lparr>status = 500,
                 body = JObj ((''error'', JStr ''Failed to delete contact'') # details e err)\<rparr>, d')
           | (Inr rows, d') \<Rightarrow>
               (case rows of
                  [] \<Rightarrow> (\<lparr>status = 404, body = JObj [(''error'', JStr ''Contact not found'')]\<rparr>, d')
                | r # _ \<Rightarrow>
                    (\<lparr>status = 200,
                      body = JObj [(''success'', JBool True),
                                   (''message'', JStr ''Contact deleted successfully''),
                                   (''data'', r)]\<rparr>, d')))"

subsection \<open>GET /api/metrics\<close>

definition get_metrics :: "env \<Rightarrow> int \<Rightarrow> db \<Rightarrow> response \<times> db" where
  "get_metrics e now d =
     (case pool_query now d MetricsQuery [] of
        (Inr rows, d') \<Rightarrow>
          (\<lparr>status = 200, body = JObj [(''success'', JBool True), (''data'', JArr rows)]\<rparr>, d')
      | (Inl err, d') \<Rightarrow>
          (\<lparr>status = 500,
            body = JObj ((''error'', JStr ''Failed to fetch metrics'') # details e err)\<rparr>, d'))"

section \<open>Concrete data for evaluation\<close>

definition provider_tables :: provider_domains where
  \<comment> \<open>a value of the provider tables; the theorems hold for every value\<close>
  "provider_tables =
     \<lparr>icloud_domains = [''icloud.com'', ''me.com''],
      outlookdotcom_domains = [''hotmail.com'', ''live.com'', ''msn.com'', ''outlook.com'',
                               ''passport.com''],
      yahoo_domains = [''rocketmail.com'', ''yahoo.ca'', ''yahoo.co.uk'', ''yahoo.com'',
                       ''yahoo.de'', ''yahoo.fr'', ''yahoo.in'', ''yahoo.it'', ''ymail.com''],
      yandex_domains = [''yandex.ru'', ''yandex.ua'', ''yandex.kz'', ''yandex.com'',
                        ''yandex.by'', ''ya.ru'']\<rparr>"

definition empty_db :: db where
  "empty_db = \<lparr>contacts = [], contacts_id_seq = 1, issued = []\<rparr>"

definition seq_fresh :: "db \<Rightarrow> bool" where
  \<comment> \<open>every stored id was drawn from the sequence, which has moved past it\<close>
  "seq_fresh d = list_all (\<lambda>r. row_id r < contacts_id_seq d) (contacts d)"


definition details_of :: "response \<Rightarrow> json list" where
  \<comment> \<open>the \<open>details\<close> array of a response body\<close>
  "details_of res = (case field ''details'' (body res) of Some (JArr xs) \<Rightarrow> xs | _ \<Rightarrow> [])"

section \<open>The validator\<close>



lemma run_email_chain:
  "run_chain ''email'' (email_chain isEmail doms) v =
     (normalizeEmail doms (trim (toString v)),
      (if trim (toString v) = [] then
         [\<lparr>err_value = JSString (trim (toString v)), err_msg = ''Email is required'',
           err_path = ''email'', err_location = ''body''\<rparr>] else [])
      @ (if isEmail (trim (toString v)) then []
         else [\<lparr>err_value = JSString (trim (toString v)),
                err_msg = ''Please provide a valid email address'',
                err_path = ''email'', err_location = ''body''\<rparr>]))"
  by (simp add: email_chain_def trim_sanitizer_def notEmpty_def)

lemma split_not_Nil: "split sep s \<noteq> []"
  by (induction s) (auto split: list.splits)

lemma join_split: "join sep (split sep s) = s"
proof (induction s)
  case Nil
  then show ?case by simp
next
  case (Cons c cs)
  obtain p ps where ps: "split sep cs = p # ps"
    using split_not_Nil [of sep cs] by (cases "split sep cs") auto
  show ?case
  proof (cases "c = sep")
    case True
    then show ?thesis using Cons ps by simp
  next
    case False
    then show ?thesis using Cons ps by (cases ps) auto
  qed
qed

lemma length_split: "sep \<in> set s \<Longrightarrow> 2 \<le> length (split sep s)"
proof (induction s)
  case Nil
  then show ?case by simp
next
  case (Cons c cs)
  obtain p ps where ps: "split sep cs = p # ps"
    using split_not_Nil [of sep cs] by (cases "split sep cs") auto
  show ?case
  proof (cases "c = sep")
    case True
    then show ?thesis using ps by simp
  next
    case False
    then show ?thesis using Cons ps by auto
  qed
qed

lemma join_butlast_last:
  "2 \<le> length ps \<Longrightarrow> join sep ps = join sep (butlast ps) @ sep # last ps"
proof (induction sep ps rule: join.induct)
  case (3 sep p q ps)
  then show ?case by (cases ps) auto
qed auto

lemma split_user_domain:
  assumes "sep \<in> set s"
  shows "join sep (butlast (split sep s)) @ sep # last (split sep s) = s"
  using join_butlast_last [OF length_split [OF assms]] join_split [of sep s] by simp

lemma toLowerCase_at:
  "toLowerCase (u @ CHR ''@'' # d) = toLowerCase u @ CHR ''@'' # toLowerCase d"
  by (simp add: toLowerCase_def lowerChar_def)

lemma normalizeEmail_other:
  assumes at: "CHR ''@'' \<in> set s"
    and dom: "toLowerCase (last (split CHR ''@'' s)) \<notin>
        {''gmail.com'', ''googlemail.com''} \<union> set (icloud_domains doms)
        \<union> set (outlookdotcom_domains doms) \<union> set (yahoo_domains doms)
        \<union> set (yandex_domains doms)"
  shows "normalizeEmail doms s = JSString (toLowerCase s)"
proof -
  have "toLowerCase s =
      toLowerCase (join CHR ''@'' (butlast (split CHR ''@'' s))) @ CHR ''@'' #
      toLowerCase (last (split CHR ''@'' s))"
    using split_user_domain [OF at] toLowerCase_at by metis
  then show ?thesis using dom by (simp add: normalizeEmail_def Let_def)
qed

lemma email_sanitized:
  "email (sanitized isEmail doms b) = normalizeEmail doms (trim (toString (email b)))"
  by (simp add: sanitized_def run_email_chain)

text \<open>
  C1, as the code has it. The email a request goes on with is \<open>normalizeEmail\<close> of the
  trimmed input. It is the lower-cased trimmed input when that input has an \<open>@\<close> and its
  lower-cased domain is neither \<open>gmail.com\<close> nor \<open>googlemail.com\<close> nor in a provider
  table of the library; for those domains sub-addresses, and for GMail single dots, are
  removed from the local part.
\<close>

theorem normalized_email_lowercase_trim:
  assumes "CHR ''@'' \<in> set (trim (toString (email b)))"
    and "toLowerCase (last (split CHR ''@'' (trim (toString (email b))))) \<notin>
        {''gmail.com'', ''googlemail.com''} \<union> set (icloud_domains doms)
        \<union> set (outlookdotcom_domains doms) \<union> set (yahoo_domains doms)
        \<union> set (yandex_domains doms)"
  shows "email (sanitized isEmail doms b) = normalizeEmail doms (trim (toString (email b)))
         \<and> email (sanitized isEmail doms b) = JSString (toLowerCase (trim (toString (email b))))"
  using normalizeEmail_other [OF assms] by (simp add: email_sanitized)

theorem normalized_email_lowercase_trim_witness:
  "email (sanitized emailRegex provider_tables
            \<lparr>name = JSString ''Jo'', email = JSString ''  Foo@EXAMPLE.com '',
             message = JSString ''0123456789''\<rparr>) = JSString ''foo@example.com''"
proof -
  let ?b = "\<lparr>name = JSString ''Jo'', email = JSString ''  Foo@EXAMPLE.com '',
             message = JSString ''0123456789''\<rparr>"
  have at: "CHR ''@'' \<in> set (trim (toString (email ?b)))"
    by code_simp
  have dom: "toLowerCase (last (split CHR ''@'' (trim (toString (email ?b))))) \<notin>
        {''gmail.com'', ''googlemail.com''} \<union> set (icloud_domains provider_tables)
        \<union> set (outlookdotcom_domains provider_tables) \<union> set (yahoo_domains provider_tables)
        \<union> set (yandex_domains provider_tables)"
    by code_simp
  have low: "toLowerCase (trim (toString (email ?b))) = ''foo@example.com''"
    by code_simp
  have "email (sanitized emailRegex provider_tables ?b)
        = JSString (toLowerCase (trim (toString (email ?b))))"
    using normalized_email_lowercase_trim [OF at dom, of emailRegex] by (rule conjunct2)
  then show ?thesis by (simp only: low)
qed

text \<open>
  C1, as stated, fails on a GMail address: the dot and the sub-address of
  \<open>John.Doe+news@gmail.com\<close> are removed.
\<close>

theorem normalized_email_gmail_counterexample:
  "email (sanitized emailRegex provider_tables
            \<lparr>name = JSString ''Jo'', email = JSString ''John.Doe+news@gmail.com'',
             message = JSString ''0123456789''\<rparr>) = JSString ''johndoe@gmail.com''
   \<and> JSString ''johndoe@gmail.com'' \<noteq> JSString (toLowerCase (trim ''John.Doe+news@gmail.com''))"
  by code_simp



text \<open>
  C4, as the code has it. When at least one rule fails the request is answered with
  status 400 and the body \<open>{error: "Validation failed", details: [...]}\<close>, without
  reaching the store; \<open>details\<close> lists the error entries of the validator in order.
  An entry carries the message of the failed rule under \<open>msg\<close>, next to the rejected
  value, its location and the name of the field; it has no key \<open>rule\<close>, \<open>message\<close> or
  \<open>field\<close>.
\<close>

theorem validation_failed_response:
  assumes "validationResult isEmail doms b \<noteq> []"
  shows "validateContact isEmail doms b =
           Inl \<lparr>status = 400,
                body = JObj [(''error'', JStr ''Validation failed''),
                             (''details'', JArr (map error_json (validationResult isEmail doms b)))]\<rparr>
         \<and> post_contacts isEmail doms e now d \<lparr>ip = a, userAgent = ua, post_body = b\<rparr> =
             (\<lparr>status = 400,
               body = JObj [(''error'', JStr ''Validation failed''),
                            (''details'', JArr (map error_json (validationResult isEmail doms b)))]\<rparr>, d)
         \<and> map (field ''msg'') (map error_json (validationResult isEmail doms b)) =
             map (\<lambda>x. Some (JStr (err_msg x))) (validationResult isEmail doms b)
         \<and> list_all (\<lambda>entry. field ''rule'' entry = None \<and> field ''message'' entry = None
                            \<and> field ''field'' entry = None)
               (map error_json (validationResult isEmail doms b))"
  using assms
  by (simp add: validateContact_def post_contacts_def error_json_def Let_def list_all_iff)

theorem validation_failed_response_witness:
  "fst (post_contacts emailRegex provider_tables
          \<lparr>NODE_ENV = Some ''production'', ADMIN_API_KEY = Some ''secret''\<rparr> 0 empty_db
          \<lparr>ip = ''127.0.0.1'', userAgent = None,
           post_body = \<lparr>name = JSString ''Jo'', email = JSString ''bad'',
                         message = JSString ''0123456789''\<rparr>\<rparr>) =
     \<lparr>status = 400,
      body = JObj [(''error'', JStr ''Validation failed''),
                   (''details'',
                    JArr [JObj [(''type'', JStr ''field''), (''value'', JStr ''bad''),
                                (''msg'', JStr ''Please provide a valid email address''),
                                (''path'', JStr ''email''), (''location'', JStr ''body'')]])]\<rparr>"
proof -
  let ?b = "\<lparr>name = JSString ''Jo'', email = JSString ''bad'', message = JSString ''0123456789''\<rparr>"
  have errs: "validationResult emailRegex provider_tables ?b =
      [\<lparr>err_value = JSString ''bad'', err_msg = ''Please provide a valid email address'',
        err_path = ''email'', err_location = ''body''\<rparr>]"
    by code_simp
  then have ne: "validationResult emailRegex provider_tables ?b \<noteq> []"
    by simp
  show ?thesis
    using validation_failed_response [OF ne, of
        "\<lparr>NODE_ENV = Some ''production'', ADMIN_API_KEY = Some ''secret''\<rparr>" 0 empty_db
        "''127.0.0.1''" None]
    by (simp add: errs error_json_def)
qed

text \<open>
  C4, as stated, fails on the shape of an entry: the entry reported for the email
  \<open>bad\<close> has no \<open>rule\<close> and no \<open>message\<close>; its message is under \<open>msg\<close>.
\<close>

theorem validation_details_shape_counterexample:
  "field ''rule''
     (details_of (fst (post_contacts emailRegex provider_tables
          \<lparr>NODE_ENV = Some ''production'', ADMIN_API_KEY = Some ''secret''\<rparr> 0 empty_db
          \<lparr>ip = ''127.0.0.1'', userAgent = None,
           post_body = \<lparr>name = JSString ''Jo'', email = JSString ''bad'',
                         message = JSString ''0123456789''\<rparr>\<rparr>)) ! 0) = None
   \<and> field ''message''
     (details_of (fst (post_contacts emailRegex provider_tables
          \<lparr>NODE_ENV = Some ''production'', ADMIN_API_KEY = Some ''secret''\<rparr> 0 empty_db
          \<lparr>ip = ''127.0.0.1'', userAgent = None,
           post_body = \<lparr>name = JSString ''Jo'', email = JSString ''bad'',
                         message = JSString ''0123456789''\<rparr>\<rparr>)) ! 0) = None
   \<and> field ''msg''
     (details_of (fst (post_contacts emailRegex provider_tables
          \<lparr>NODE_ENV = Some ''production'', ADMIN_API_KEY = Some ''secret''\<rparr> 0 empty_db
          \<lparr>ip = ''127.0.0.1'', userAgent = None,
           post_body = \<lparr>name = JSString ''Jo'', email = JSString ''bad'',
                         message = JSString ''0123456789''\<rparr>\<rparr>)) ! 0)
       = Some (JStr ''Please provide a valid email address'')"
  by code_simp

section \<open>The list queries\<close>

lemma filters_shape:
  assumes "filters q = (conditions, params, paramCount)"
  shows "paramCount = length params"
    and "params = List.map_filter id
           [email_filter q, map_option PTime (q_startDate q), map_option PTime (q_endDate q)]"
    and "map placeholder conditions = [1..<paramCount + 1]"
  using assms
  by (cases "email_filter q"; cases "q_startDate q"; cases "q_endDate q";
      auto simp: filters_def List.map_filter_def)+

lemma fold_max_upt: "fold max [1..<n + 1] (0::nat) = n"
  by (induction n) auto

lemma email_filter_not_int: "email_filter q \<noteq> Some (PInt v)"
  by (auto simp: email_filter_def split: option.splits)

lemma issued_pool_query: "issued (snd (pool_query now d stmt ps)) = issued d @ [(stmt, ps)]"
  by (auto simp: pool_query_def insert_contact_def Let_def
      split: statement.splits param.splits list.splits option.splits prod.splits)

lemma snd_get_contacts:
  "snd (get_contacts e now d q) =
     snd (pool_query now (snd (pool_query now d (fst (fst (list_statements q))) (snd (fst (list_statements q)))))
            (fst (snd (list_statements q))) (snd (snd (list_statements q))))"
  by (auto simp: get_contacts_def Let_def split: prod.splits sum.splits option.splits)

text \<open>
  C2. Whatever filters are present, the count query is executed with exactly the filter
  parameters: the first \<open>paramCount\<close> parameters of the row query, which are the
  values of the filters present, in order, none of them the limit or the offset that
  the row query has after them; they are as many as the count query has placeholders.
\<close>

theorem count_query_params:
  assumes "filters q = (conditions, params, paramCount)"
  shows "list_statements q =
           ((SelectContacts conditions (paramCount + 1) (paramCount + 2),
             params @ [PInt (limit_of q), PInt ((page_of q - 1) * limit_of q)]),
            (CountContacts conditions,
             take paramCount (params @ [PInt (limit_of q), PInt ((page_of q - 1) * limit_of q)])))
         \<and> take paramCount (params @ [PInt (limit_of q), PInt ((page_of q - 1) * limit_of q)]) = params
         \<and> params = List.map_filter id
             [email_filter q, map_option PTime (q_startDate q), map_option PTime (q_endDate q)]
         \<and> (\<forall>v. PInt v \<notin> set params)
         \<and> required (CountContacts conditions) = length params
         \<and> issued (snd (get_contacts e now d q)) =
             issued d @ [(SelectContacts conditions (paramCount + 1) (paramCount + 2),
                          params @ [PInt (limit_of q), PInt ((page_of q - 1) * limit_of q)]),
                         (CountContacts conditions, params)]"
proof -
  note sh = filters_shape [OF assms]
  have stmts: "list_statements q =
           ((SelectContacts conditions (paramCount + 1) (paramCount + 2),
             params @ [PInt (limit_of q), PInt ((page_of q - 1) * limit_of q)]),
            (CountContacts conditions,
             take paramCount (params @ [PInt (limit_of q), PInt ((page_of q - 1) * limit_of q)])))"
    using assms by (simp add: list_statements_def Let_def)
  have tk: "take paramCount (params @ [PInt (limit_of q), PInt ((page_of q - 1) * limit_of q)]) = params"
    using sh(1) by simp
  have noint: "\<forall>v. PInt v \<notin> set params"
    unfolding sh(2)
    by (auto simp: List.map_filter_def email_filter_not_int split: option.splits)
  have req: "required (CountContacts conditions) = length params"
  proof -
    have "fold max (map placeholder conditions) 0 = paramCount"
      unfolding sh(3) by (rule fold_max_upt)
    then show ?thesis using sh(1) by simp
  qed
  have iss: "issued (snd (get_contacts e now d q)) =
             issued d @ [(SelectContacts conditions (paramCount + 1) (paramCount + 2),
                          params @ [PInt (limit_of q), PInt ((page_of q - 1) * limit_of q)]),
                         (CountContacts conditions, params)]"
  proof -
    have "list_statements q =
           ((SelectContacts conditions (paramCount + 1) (paramCount + 2),
             params @ [PInt (limit_of q), PInt ((page_of q - 1) * limit_of q)]),
            (CountContacts conditions, params))"
      by (simp only: stmts tk)
    then show ?thesis by (simp add: snd_get_contacts issued_pool_query)
  qed
  show ?thesis using stmts tk sh(2) noint req iss by blast
qed

theorem count_query_params_witness:
  "snd (list_statements
          \<lparr>q_page = Some 2, q_limit = Some 5, q_email = Some ''a@b.co'',
           q_startDate = None, q_endDate = Some 100\<rparr>) =
     (CountContacts [Cond ''email'' Eq 1, Cond ''created_at'' Le 2], [PText ''a@b.co'', PTime 100])
   \<and> snd (fst (list_statements
          \<lparr>q_page = Some 2, q_limit = Some 5, q_email = Some ''a@b.co'',
           q_startDate = None, q_endDate = Some 100\<rparr>)) =
     [PText ''a@b.co'', PTime 100, PInt 5, PInt 5]"
proof -
  let ?q = "\<lparr>q_page = Some 2, q_limit = Some 5, q_email = Some ''a@b.co'',
             q_startDate = None, q_endDate = Some 100\<rparr>"
  have f: "filters ?q =
      ([Cond ''email'' Eq 1, Cond ''created_at'' Le 2], [PText ''a@b.co'', PTime 100], 2)"
    by (simp add: filters_def email_filter_def)
  show ?thesis
    using count_query_params [OF f, of "\<lparr>NODE_ENV = None, ADMIN_API_KEY = None\<rparr>" 0 empty_db]
    by (simp add: limit_of_def page_of_def)
qed

section \<open>Creating and deleting\<close>

text \<open>
  C5. When the insert of a valid submission fails, the response is 409 if the store
  reports the code 23505 of a uniqueness violation; for every other error it is 500,
  with the \<open>details\<close> of the error only when \<open>NODE_ENV\<close> is \<open>development\<close>.
\<close>

theorem create_store_failure:
  assumes "validateContact isEmail doms b = Inr b'"
    and "fst (pool_query now d InsertContact
                (insert_params \<lparr>ip = a, userAgent = ua, post_body = b\<rparr> b')) = Inl err"
  shows "fst (post_contacts isEmail doms e now d \<lparr>ip = a, userAgent = ua, post_body = b\<rparr>) =
           (if pg_code err = ''23505''
            then \<lparr>status = 409, body = JObj [(''error'', JStr ''Duplicate submission detected'')]\<rparr>
            else \<lparr>status = 500,
                  body = JObj ((''error'', JStr ''Failed to save contact'')
                               # (if NODE_ENV e = Some ''development''
                                  then [(''details'', JStr (pg_message err))] else []))\<rparr>)"
  using assms
  by (cases "pool_query now d InsertContact (insert_params \<lparr>ip = a, userAgent = ua, post_body = b\<rparr> b')")
     (simp add: post_contacts_def save_failed_def details_def)

theorem create_store_failure_witness:
  "fst (post_contacts emailRegex provider_tables \<lparr>NODE_ENV = Some ''production'', ADMIN_API_KEY = None\<rparr> 50
          \<lparr>contacts = [\<lparr>row_id = 1, row_name = ''Al'', row_email = ''al@b.co'',
                         row_message = ''0123456789'', ip_address = None, user_agent = None,
                         created_at = 10, updated_at = 10\<rparr>],
           contacts_id_seq = 1, issued = []\<rparr>
          \<lparr>ip = ''127.0.0.1'', userAgent = None,
           post_body = \<lparr>name = JSString ''Jo'', email = JSString ''a@b.co'',
                         message = JSString ''0123456789''\<rparr>\<rparr>) =
     \<lparr>status = 409, body = JObj [(''error'', JStr ''Duplicate submission detected'')]\<rparr>
   \<and> fst (post_contacts emailRegex provider_tables \<lparr>NODE_ENV = Some ''development'', ADMIN_API_KEY = None\<rparr> 50
          empty_db
          \<lparr>ip = ''127.0.0.1'', userAgent = None,
           post_body = \<lparr>name = JSString ''Jo'', email = JSString (replicate 101 CHR ''a'' @ ''@b.co''),
                         message = JSString ''0123456789''\<rparr>\<rparr>) =
     \<lparr>status = 500,
      body = JObj [(''error'', JStr ''Failed to save contact''),
                   (''details'', JStr ''value too long for type character varying(100)'')]\<rparr>"
proof -
  let ?d = "\<lparr>contacts = [\<lparr>row_id = 1, row_name = ''Al'', row_email = ''al@b.co'',
                         row_message = ''0123456789'', ip_address = None, user_agent = None,
                         created_at = 10, updated_at = 10\<rparr>],
           contacts_id_seq = 1, issued = []\<rparr>"
  let ?b = "\<lparr>name = JSString ''Jo'', email = JSString ''a@b.co'', message = JSString ''0123456789''\<rparr>"
  let ?long = "\<lparr>name = JSString ''Jo'', email = JSString (replicate 101 CHR ''a'' @ ''@b.co''),
                message = JSString ''0123456789''\<rparr>"
  have v1: "validateContact emailRegex provider_tables ?b = Inr ?b"
    by code_simp
  have q1: "fst (pool_query 50 ?d InsertContact
                  (insert_params \<lparr>ip = ''127.0.0.1'', userAgent = None, post_body = ?b\<rparr> ?b)) =
            Inl \<lparr>pg_code = ''23505'', pg_message = ''duplicate key value violates unique constraint''\<rparr>"
    by code_simp
  have v2: "validateContact emailRegex provider_tables ?long = Inr ?long"
    by code_simp
  have q2: "fst (pool_query 50 empty_db InsertContact
                  (insert_params \<lparr>ip = ''127.0.0.1'', userAgent = None, post_body = ?long\<rparr> ?long)) =
            Inl \<lparr>pg_code = ''22001'', pg_message = ''value too long for type character varying(100)''\<rparr>"
    by code_simp
  show ?thesis
    using create_store_failure [OF v1 q1, of "\<lparr>NODE_ENV = Some ''production'', ADMIN_API_KEY = None\<rparr>"]
      create_store_failure [OF v2 q2, of "\<lparr>NODE_ENV = Some ''development'', ADMIN_API_KEY = None\<rparr>"]
    by simp
qed

text \<open>
  C7. In production a delete whose \<open>X-API-Key\<close> is not the configured admin key is
  answered with 401 and leaves the store as it was: no statement is issued and the rows
  are unchanged.
\<close>

theorem delete_unauthorized:
  assumes "NODE_ENV e = Some ''production''" and "api_key req \<noteq> ADMIN_API_KEY e"
  shows "delete_contact e now d req =
           (\<lparr>status = 401, body = JObj [(''error'', JStr ''Unauthorized'')]\<rparr>, d)
         \<and> issued (snd (delete_contact e now d req)) = issued d
         \<and> contacts (snd (delete_contact e now d req)) = contacts d"
  using assms by (simp add: delete_contact_def)

theorem delete_unauthorized_witness:
  "delete_contact \<lparr>NODE_ENV = Some ''production'', ADMIN_API_KEY = Some ''secret''\<rparr> 60
     \<lparr>contacts = [\<lparr>row_id = 7, row_name = ''Al'', row_email = ''al@b.co'',
                    row_message = ''0123456789'', ip_address = None, user_agent = None,
                    created_at = 10, updated_at = 10\<rparr>],
      contacts_id_seq = 8, issued = []\<rparr>
     \<lparr>api_key = None, id_param = 7\<rparr> =
   (\<lparr>status = 401, body = JObj [(''error'', JStr ''Unauthorized'')]\<rparr>,
    \<lparr>contacts = [\<lparr>row_id = 7, row_name = ''Al'', row_email = ''al@b.co'',
                    row_message = ''0123456789'', ip_address = None, user_agent = None,
                    created_at = 10, updated_at = 10\<rparr>],
      contacts_id_seq = 8, issued = []\<rparr>)"
proof -
  let ?e = "\<lparr>NODE_ENV = Some ''production'', ADMIN_API_KEY = Some ''secret''\<rparr>"
  let ?req = "\<lparr>api_key = None, id_param = 7\<rparr>"
  have p: "NODE_ENV ?e = Some ''production''" by simp
  have k: "api_key ?req \<noteq> ADMIN_API_KEY ?e" by simp
  show ?thesis
    using delete_unauthorized [OF p k, of 60] by simp
qed






section \<open>Uniqueness\<close>

lemma seq_fresh_empty: "seq_fresh empty_db"
  by (simp add: seq_fresh_def empty_db_def)

lemma seq_fresh_delete: "seq_fresh d \<Longrightarrow> seq_fresh (snd (delete_contact e now d req))"
  by (auto simp: delete_contact_def pool_query_def seq_fresh_def list_all_iff
      split: list.splits)










section \<open>Metrics\<close>

lemma DATE_window: "(DATE now - 30) * 86400 \<le> t \<Longrightarrow> DATE now - 30 \<le> DATE t"
proof -
  assume "(DATE now - 30) * 86400 \<le> t"
  then have "((DATE now - 30) * 86400) div 86400 \<le> t div 86400"
    by (rule zdiv_mono1) simp
  then show ?thesis by (simp add: DATE_def)
qed

lemma metrics_rows_dates:
  "map date (metrics_rows now rows) =
     rev (sort (remdups (map (\<lambda>r. DATE (created_at r))
        (filter (\<lambda>r. (DATE now - 30) * 86400 \<le> created_at r) rows))))"
  by (simp add: metrics_rows_def Let_def o_def)

lemma metrics_rows_descending:
  "sorted_wrt (\<lambda>a b. date a > date b) (metrics_rows now rows)"
proof -
  let ?ds = "sort (remdups (map (\<lambda>r. DATE (created_at r))
        (filter (\<lambda>r. (DATE now - 30) * 86400 \<le> created_at r) rows)))"
  have "sorted_wrt (<) ?ds"
    by (simp add: strict_sorted_iff)
  then have "sorted_wrt (\<lambda>x y. y < x) (rev ?ds)"
    by (simp add: sorted_wrt_rev)
  then have "sorted_wrt (\<lambda>x y. y < x) (map date (metrics_rows now rows))"
    by (simp only: metrics_rows_dates)
  then show ?thesis
    by (simp add: sorted_wrt_map)
qed

lemma metrics_rows_member:
  assumes "m \<in> set (metrics_rows now rows)"
  shows "total_contacts m = daily_count m"
    and "daily_count m = length (filter (\<lambda>r. DATE (created_at r) = date m
            \<and> (DATE now - 30) * 86400 \<le> created_at r) rows)"
    and "unique_emails m = card (row_email ` {r \<in> set rows. DATE (created_at r) = date m
            \<and> (DATE now - 30) * 86400 \<le> created_at r})"
    and "DATE now - 30 \<le> date m"
    and "0 < daily_count m"
proof -
  let ?recent = "filter (\<lambda>r. (DATE now - 30) * 86400 \<le> created_at r) rows"
  obtain dd where dd: "dd \<in> set (map (\<lambda>r. DATE (created_at r)) ?recent)"
    and m: "m = \<lparr>total_contacts = length (filter (\<lambda>r. DATE (created_at r) = dd) ?recent),
                 unique_emails = length (remdups (map row_email
                                    (filter (\<lambda>r. DATE (created_at r) = dd) ?recent))),
                 date = dd,
                 daily_count = length (filter (\<lambda>r. DATE (created_at r) = dd) ?recent)\<rparr>"
    using assms by (auto simp: metrics_rows_def Let_def)
  show "total_contacts m = daily_count m"
    by (simp add: m)
  show "daily_count m = length (filter (\<lambda>r. DATE (created_at r) = date m
            \<and> (DATE now - 30) * 86400 \<le> created_at r) rows)"
    by (simp add: m conj_commute)
  have "set (filter (\<lambda>r. DATE (created_at r) = dd) ?recent) =
      {r \<in> set rows. DATE (created_at r) = dd \<and> (DATE now - 30) * 86400 \<le> created_at r}"
    by auto
  then show "unique_emails m = card (row_email ` {r \<in> set rows. DATE (created_at r) = date m
            \<and> (DATE now - 30) * 86400 \<le> created_at r})"
    by (simp add: m length_remdups_card_conv)
  obtain r where r: "r \<in> set ?recent" "DATE (created_at r) = dd"
    using dd by auto
  then show "DATE now - 30 \<le> date m"
    using DATE_window [of now "created_at r"] by (simp add: m)
  have "r \<in> set (filter (\<lambda>r. DATE (created_at r) = dd) ?recent)"
    using r by simp
  then show "0 < daily_count m"
    by (simp only: m metric.simps length_greater_0_conv) (metis empty_iff list.set(1))
qed

text \<open>
  C10. A row of the metrics stands for one calendar date of the trailing 30 days. Its
  \<open>total_contacts\<close> and its \<open>daily_count\<close> are the same number, the count of the
  contacts created on that date, and \<open>unique_emails\<close> is the number of distinct emails
  among them; the rows come in strictly descending date order. No row counts the
  contacts of another date.
\<close>

theorem metrics_rows_per_day:
  "(\<forall>m \<in> set (metrics_rows now (contacts d)).
      total_contacts m = daily_count m
      \<and> daily_count m = length (filter (\<lambda>r. DATE (created_at r) = date m
            \<and> (DATE now - 30) * 86400 \<le> created_at r) (contacts d))
      \<and> unique_emails m = card (row_email ` {r \<in> set (contacts d). DATE (created_at r) = date m
            \<and> (DATE now - 30) * 86400 \<le> created_at r})
      \<and> DATE now - 30 \<le> date m
      \<and> 0 < daily_count m)
   \<and> sorted_wrt (\<lambda>a b. date a > date b) (metrics_rows now (contacts d))
   \<and> fst (get_metrics e now d) =
       \<lparr>status = 200,
        body = JObj [(''success'', JBool True),
                     (''data'', JArr (map metric_json (metrics_rows now (contacts d))))]\<rparr>"
proof -
  have "fst (get_metrics e now d) =
       \<lparr>status = 200,
        body = JObj [(''success'', JBool True),
                     (''data'', JArr (map metric_json (metrics_rows now (contacts d))))]\<rparr>"
    by (simp add: get_metrics_def pool_query_def)
  then show ?thesis
    using metrics_rows_member [of _ now "contacts d"] metrics_rows_descending [of now "contacts d"]
    by blast
qed

theorem metrics_rows_per_day_witness:
  "metrics_rows 3456005
     [\<lparr>row_id = 1, row_name = ''Al'', row_email = ''c@x.co'', row_message = ''0123456789'',
       ip_address = None, user_agent = None, created_at = 432000, updated_at = 432000\<rparr>,
      \<lparr>row_id = 2, row_name = ''Al'', row_email = ''a@x.co'', row_message = ''0123456789'',
       ip_address = None, user_agent = None, created_at = 3369600, updated_at = 3369600\<rparr>,
      \<lparr>row_id = 3, row_name = ''Al'', row_email = ''a@x.co'', row_message = ''0123456789'',
       ip_address = None, user_agent = None, created_at = 3456001, updated_at = 3456001\<rparr>,
      \<lparr>row_id = 4, row_name = ''Bo'', row_email = ''b@x.co'', row_message = ''0123456789'',
       ip_address = None, user_agent = None, created_at = 3456002, updated_at = 3456002\<rparr>] =
     [\<lparr>total_contacts = 2, unique_emails = 2, date = 40, daily_count = 2\<rparr>,
      \<lparr>total_contacts = 1, unique_emails = 1, date = 39, daily_count = 1\<rparr>]
   \<and> total_contacts \<lparr>total_contacts = 2, unique_emails = 2, date = 40, daily_count = 2\<rparr> =
       daily_count \<lparr>total_contacts = 2, unique_emails = 2, date = 40, daily_count = 2\<rparr>"
proof -
  let ?rows = "[\<lparr>row_id = 1, row_name = ''Al'', row_email = ''c@x.co'', row_message = ''0123456789'',
       ip_address = None, user_agent = None, created_at = 432000, updated_at = 432000\<rparr>,
      \<lparr>row_id = 2, row_name = ''Al'', row_email = ''a@x.co'', row_message = ''0123456789'',
       ip_address = None, user_agent = None, created_at = 3369600, updated_at = 3369600\<rparr>,
      \<lparr>row_id = 3, row_name = ''Al'', row_email = ''a@x.co'', row_message = ''0123456789'',
       ip_address = None, user_agent = None, created_at = 3456001, updated_at = 3456001\<rparr>,
      \<lparr>row_id = 4, row_name = ''Bo'', row_email = ''b@x.co'', row_message = ''0123456789'',
       ip_address = None, user_agent = None, created_at = 3456002, updated_at = 3456002\<rparr>]"
  let ?m = "\<lparr>total_contacts = 2, unique_emails = 2, date = 40, daily_count = 2\<rparr>"
  have v: "metrics_rows 3456005 ?rows =
      [?m, \<lparr>total_contacts = 1, unique_emails = 1, date = 39, daily_count = 1\<rparr>]"
    by code_simp
  then have mem: "?m \<in> set (metrics_rows 3456005 (contacts \<lparr>contacts = ?rows, contacts_id_seq = 5, issued = []\<rparr>))"
    by simp
  have "total_contacts ?m = daily_count ?m"
    using metrics_rows_per_day [of 3456005 "\<lparr>contacts = ?rows, contacts_id_seq = 5, issued = []\<rparr>"
        "\<lparr>NODE_ENV = None, ADMIN_API_KEY = None\<rparr>"] mem
    by blast
  then show ?thesis using v by simp
qed

section \<open>Listing\<close>




lemma fold_max_snoc2: "fold max (xs @ [a, b]) (0::nat) = max b (max a (fold max xs 0))"
  by simp













end
